theory Spec2Isabelle
  imports Main
begin

section \<open>JavaScript values, JSON objects and HTTP responses\<close>

text \<open>
  The values that cross the boundary of the backend are JSON values: the parsed request body,
  the decoded token payload and the response bodies. Numbers are the integers (ids, epoch
  seconds); \<open>JUndefined\<close> is what reading an absent property gives.
\<close>

datatype jsval =
    JUndefined
  | JNull
  | JBool bool
  | JNum int
  | JStr string
  | JObj "(string \<times> jsval) list"
  | JArr "jsval list"

type_synonym jsobj = "(string \<times> jsval) list"

text \<open>JavaScript truthiness, as the \<open>!x\<close> tests of the source read it.\<close>

fun truthy :: "jsval \<Rightarrow> bool" where
  "truthy JUndefined = False"
| "truthy JNull = False"
| "truthy (JBool b) = b"
| "truthy (JNum n) = (n \<noteq> 0)"
| "truthy (JStr s) = (s \<noteq> [])"
| "truthy (JObj kvs) = True"
| "truthy (JArr vs) = True"

text \<open>Property access \<open>obj.k\<close>: the value stored under the key, \<open>undefined\<close> when there is none.\<close>

definition get_prop :: "jsobj \<Rightarrow> string \<Rightarrow> jsval" where
  "get_prop obj k = (case map_of obj k of None \<Rightarrow> JUndefined | Some v \<Rightarrow> v)"

text \<open>Thrown values: a plain \<open>Error\<close> with its message, and the failures of the token library.\<close>

datatype exn = Error string | SigningError | Malformed | BadSignature | Expired

text \<open>What \<open>console.error(label, err)\<close> writes; it stays on the server.\<close>

type_synonym console = "(string \<times> exn) list"

record response =
  status :: nat
  body :: jsobj

text \<open>\<open>res.status(code).json(obj)\<close>, and \<open>res.json(obj)\<close> with the default status 200.\<close>

definition status_json :: "nat \<Rightarrow> jsobj \<Rightarrow> response" where
  "status_json code obj = \<lparr>status = code, body = obj\<rparr>"

definition json :: "jsobj \<Rightarrow> response" where
  "json obj = status_json 200 obj"

section \<open>Requests and middleware\<close>

text \<open>
  \<open>req.user\<close> is absent until \<open>verifyToken\<close> attaches the decoded claims; the three fields are
  whatever the token payload holds under \<open>id\<close>, \<open>username\<close> and \<open>role\<close>.
\<close>

record claims =
  claim_id :: jsval
  claim_username :: jsval
  claim_role :: jsval

record request =
  authorization :: "string option"
  user :: "claims option"

text \<open>
  The outcome of one of the two guards: the response it sent, or the request it handed to
  \<open>next()\<close>. That each guard does one of the two and not both is shown with the guard
  chain, from the calls its body makes.
\<close>

datatype outcome = Responded response | CallNext request

subsection \<open>middlewares/checkRole.js\<close>

text \<open>\<open>roles.includes(v)\<close> for an array of string literals.\<close>

definition includes_js :: "string list \<Rightarrow> jsval \<Rightarrow> bool" where
  "includes_js roles v = (v \<in> set (map JStr roles))"

text \<open>
  \<open>checkRole(roles = [])\<close>: the argument is optional and defaults to the empty array; the
  result is the middleware.
\<close>

definition checkRole :: "string list option \<Rightarrow> request \<Rightarrow> outcome" where
  "checkRole rolesArg req =
     (let roles = (case rolesArg of None \<Rightarrow> [] | Some rs \<Rightarrow> rs) in
      case user req of
        None \<Rightarrow>
          Responded (status_json 403
            [(''message'', JStr ''Access denied: insufficient permissions'')])
      | Some u \<Rightarrow>
          if \<not> includes_js roles (claim_role u)
          then Responded (status_json 403
            [(''message'', JStr ''Access denied: insufficient permissions'')])
          else CallNext req)"

subsection \<open>The libraries and the process state the controllers use\<close>

text \<open>
  A row of the \<open>users\<close> table (config/db.js: \<open>id INTEGER PRIMARY KEY AUTOINCREMENT\<close>,
  \<open>username TEXT UNIQUE\<close>, \<open>passwordHashed TEXT\<close>, \<open>role TEXT\<close>).
\<close>

record user_row =
  u_id :: int
  u_username :: string
  u_passwordHashed :: string
  u_role :: string

text \<open>
  The open SQLite connection, of which the source uses only \<open>db.get(sql, params)\<close>: the
  first matching row, \<open>undefined\<close> when there is none, or a rejection.
\<close>

type_synonym connection = "string \<Rightarrow> jsval list \<Rightarrow> exn + user_row option"

text \<open>
  What the code reads from outside itself: the module variable \<open>db\<close> of config/db.js (unset
  until \<open>connectDB\<close> has run), \<open>process.env.JWT_SECRET\<close>, and the library calls
  \<open>bcrypt.compare(data, hash)\<close>, the \<open>SignJWT\<close> builder chain (payload, protected header,
  expiration span, key, clock) and \<open>jwtVerify(token, key)\<close> (with the clock).
\<close>

record env =
  db :: "connection option"
  JWT_SECRET :: "string option"
  bcrypt_compare :: "jsval \<Rightarrow> string \<Rightarrow> exn + bool"
  signJWT :: "jsobj \<Rightarrow> jsobj \<Rightarrow> string \<Rightarrow> string \<Rightarrow> nat \<Rightarrow> exn + string"
  jwtVerify :: "string \<Rightarrow> string \<Rightarrow> nat \<Rightarrow> exn + jsobj"

text \<open>\<open>new TextEncoder().encode(s)\<close>: the bytes of the string, none for \<open>undefined\<close>.\<close>

definition text_encode :: "string option \<Rightarrow> string" where
  "text_encode s = (case s of None \<Rightarrow> [] | Some t \<Rightarrow> t)"

subsection \<open>config/db.js\<close>

definition getDB :: "env \<Rightarrow> exn + connection" where
  "getDB e =
     (case db e of
        None \<Rightarrow> Inl (Error ''Database not connected. Call connectDB() first.'')
      | Some conn \<Rightarrow> Inr conn)"

subsection \<open>utils/generateToken.js\<close>

text \<open>
  The result is the token or the rethrown error, with what the \<open>catch\<close> block printed.
\<close>

definition generateToken :: "env \<Rightarrow> nat \<Rightarrow> user_row \<Rightarrow> (exn + string) \<times> console" where
  "generateToken e now u =
     (let secret = text_encode (JWT_SECRET e) in
      case signJWT e
             [(''id'', JNum (u_id u)),
              (''username'', JStr (u_username u)),
              (''role'', JStr (u_role u))]
             [(''alg'', JStr ''HS256'')]
             ''1m''
             secret now of
        Inr token \<Rightarrow> (Inr token, [])
      | Inl error \<Rightarrow> (Inl error, [(''Token generation failed:'', error)]))"

subsection \<open>controllers/authController.js\<close>

text \<open>The body of the \<open>try\<close> block of \<open>login\<close>: the response sent, or the error thrown.\<close>

definition login_try :: "env \<Rightarrow> nat \<Rightarrow> jsval \<Rightarrow> jsval \<Rightarrow> (exn + response) \<times> console" where
  "login_try e now username password =
     (case getDB e of
        Inl err \<Rightarrow> (Inl err, [])
      | Inr conn \<Rightarrow>
          (case conn ''SELECT * FROM users WHERE username = ?'' [username] of
             Inl err \<Rightarrow> (Inl err, [])
           | Inr None \<Rightarrow>
               (Inr (status_json 401 [(''message'', JStr ''Invalid credentials'')]), [])
           | Inr (Some u) \<Rightarrow>
               (case bcrypt_compare e password (u_passwordHashed u) of
                  Inl err \<Rightarrow> (Inl err, [])
                | Inr isMatch \<Rightarrow>
                    if \<not> isMatch
                    then (Inr (status_json 401 [(''message'', JStr ''Invalid credentials'')]), [])
                    else
                      (case generateToken e now u of
                         (Inl err, out) \<Rightarrow> (Inl err, out)
                       | (Inr token, out) \<Rightarrow>
                           (Inr (json [(''id'', JNum (u_id u)),
                                       (''username'', JStr (u_username u)),
                                       (''role'', JStr (u_role u)),
                                       (''token'', JStr token)]), out)))))"

text \<open>\<open>login(req, res)\<close> on the parsed request body: the response and the console output.\<close>

definition login :: "env \<Rightarrow> nat \<Rightarrow> jsobj \<Rightarrow> response \<times> console" where
  "login e now req_body =
     (let username = get_prop req_body ''username'';
          password = get_prop req_body ''password'' in
      if \<not> truthy username \<or> \<not> truthy password
      then (status_json 400 [(''message'', JStr ''Username and password required'')], [])
      else
        (case login_try e now username password of
           (Inr resp, out) \<Rightarrow> (resp, out)
         | (Inl err, out) \<Rightarrow>
             (status_json 500 [(''message'', JStr ''Server error'')],
              out @ [(''Login error:'', err)])))"

subsection \<open>middlewares/verifyToken.js\<close>

text \<open>
  \<open>s.split(sep)\<close> for a one-character separator: every occurrence cuts, so two separators
  in a row give an empty piece, and the result always has at least one piece.
\<close>

fun split_on :: "char \<Rightarrow> string \<Rightarrow> string list" where
  "split_on sep [] = [[]]"
| "split_on sep (c # cs) =
     (if c = sep then [] # split_on sep cs
      else (case split_on sep cs of
              [] \<Rightarrow> [[c]]
            | w # ws \<Rightarrow> (c # w) # ws))"

text \<open>\<open>xs[i]\<close>: \<open>undefined\<close> past the end.\<close>

definition at_index :: "'a list \<Rightarrow> nat \<Rightarrow> 'a option" where
  "at_index xs i = (if i < length xs then Some (xs ! i) else None)"

definition verifyToken :: "env \<Rightarrow> nat \<Rightarrow> request \<Rightarrow> outcome \<times> console" where
  "verifyToken e now req =
     (let secret = text_encode (JWT_SECRET e) in
      case authorization req of
        None \<Rightarrow>
          (Responded (status_json 401 [(''message'', JStr ''No token provided'')]), [])
      | Some authHeader \<Rightarrow>
          if \<not> truthy (JStr authHeader)
          then (Responded (status_json 401 [(''message'', JStr ''No token provided'')]), [])
          else
            (case at_index (split_on CHR '' '' authHeader) 1 of
               None \<Rightarrow>
                 (Responded (status_json 401 [(''message'', JStr ''Malformed token'')]), [])
             | Some token \<Rightarrow>
                 if \<not> truthy (JStr token)
                 then (Responded (status_json 401 [(''message'', JStr ''Malformed token'')]), [])
                 else
                   (case jwtVerify e token secret now of
                      Inr payload \<Rightarrow>
                        (CallNext (req\<lparr>user := Some
                           \<lparr>claim_id = get_prop payload ''id'',
                            claim_username = get_prop payload ''username'',
                            claim_role = get_prop payload ''role''\<rparr>\<rparr>), [])
                    | Inl err \<Rightarrow>
                        (Responded
                           (status_json 403 [(''message'', JStr ''Invalid or expired token'')]),
                         [(''Token verification failed:'', err)]))))"

subsection \<open>routes/dataRoutes.js\<close>

text \<open>
  What a middleware does with \<open>res\<close>, \<open>next\<close> and the console, in the order it does it:
  \<open>res.status(code).json(obj)\<close> or \<open>res.json(obj)\<close>, \<open>next()\<close> with the request as it is at
  that moment, \<open>console.error(label, err)\<close>. Nothing in a list of calls keeps a middleware
  from sending a response and calling \<open>next()\<close> as well; whether the guards of this
  repository do is read off their bodies, statement by statement.
\<close>

datatype call = Send response | Next request | Log string exn

text \<open>The calls of the middleware \<open>checkRole(roles)\<close> returns (middlewares/checkRole.js).\<close>

definition checkRole_calls :: "string list option \<Rightarrow> request \<Rightarrow> call list" where
  "checkRole_calls rolesArg req =
     (let roles = (case rolesArg of None \<Rightarrow> [] | Some rs \<Rightarrow> rs) in
      case user req of
        None \<Rightarrow>
          [Send (status_json 403
             [(''message'', JStr ''Access denied: insufficient permissions'')])]
      | Some u \<Rightarrow>
          if \<not> includes_js roles (claim_role u)
          then [Send (status_json 403
                  [(''message'', JStr ''Access denied: insufficient permissions'')])]
          else [Next req])"

text \<open>The calls of \<open>verifyToken\<close> (middlewares/verifyToken.js).\<close>

definition verifyToken_calls :: "env \<Rightarrow> nat \<Rightarrow> request \<Rightarrow> call list" where
  "verifyToken_calls e now req =
     (let secret = text_encode (JWT_SECRET e) in
      case authorization req of
        None \<Rightarrow> [Send (status_json 401 [(''message'', JStr ''No token provided'')])]
      | Some authHeader \<Rightarrow>
          if \<not> truthy (JStr authHeader)
          then [Send (status_json 401 [(''message'', JStr ''No token provided'')])]
          else
            (case at_index (split_on CHR '' '' authHeader) 1 of
               None \<Rightarrow> [Send (status_json 401 [(''message'', JStr ''Malformed token'')])]
             | Some token \<Rightarrow>
                 if \<not> truthy (JStr token)
                 then [Send (status_json 401 [(''message'', JStr ''Malformed token'')])]
                 else
                   (case jwtVerify e token secret now of
                      Inr payload \<Rightarrow>
                        [Next (req\<lparr>user := Some
                           \<lparr>claim_id = get_prop payload ''id'',
                            claim_username = get_prop payload ''username'',
                            claim_role = get_prop payload ''role''\<rparr>\<rparr>)]
                    | Inl err \<Rightarrow>
                        [Log ''Token verification failed:'' err,
                         Send (status_json 403
                           [(''message'', JStr ''Invalid or expired token'')])])))"

text \<open>
  The layers \<open>router.get(path, ...)\<close> registers, in registration order: the two guards and
  the final handlers, which send their response with \<open>res.json\<close> and make no other call.
\<close>

datatype layer =
    VerifyToken
  | CheckRole "string list option"
  | Handler "request \<Rightarrow> response"

fun is_handler :: "layer \<Rightarrow> bool" where
  "is_handler (Handler h) = True"
| "is_handler VerifyToken = False"
| "is_handler (CheckRole rs) = False"

fun run_layer :: "env \<Rightarrow> nat \<Rightarrow> layer \<Rightarrow> request \<Rightarrow> call list" where
  "run_layer e now VerifyToken req = verifyToken_calls e now req"
| "run_layer e now (CheckRole rs) req = checkRole_calls rs req"
| "run_layer e now (Handler h) req = [Send (h req)]"

definition admin_handler :: "request \<Rightarrow> response" where
  "admin_handler req = json [(''message'', JStr ''Admin content here'')]"

definition advisor_handler :: "request \<Rightarrow> response" where
  "advisor_handler req = json [(''message'', JStr ''Advisor content here'')]"

definition route_admin :: "layer list" where
  "route_admin = [VerifyToken, CheckRole (Some [''admin'']), Handler admin_handler]"

definition route_advisor :: "layer list" where
  "route_advisor = [VerifyToken, CheckRole (Some [''advisor'']), Handler advisor_handler]"

text \<open>What happens while a request is served: a layer is invoked, a response is sent, a line
  is printed.\<close>

datatype event = Invoked layer | Sent response | Printed string exn

text \<open>
  Modelled from the spec: the router that runs the layers of a route (Express) is not part
  of the source tree. The spec (4.6, 5) has the steps of the guard chain execute strictly
  in sequence, each step reached when the one before it lets the request through: the
  router invokes the first layer, and invokes the following layer with the request a layer
  hands to \<open>next()\<close>, at the moment of that call and only then. What a layer sends or prints
  is passed through unchanged.
\<close>

fun dispatch :: "env \<Rightarrow> nat \<Rightarrow> layer list \<Rightarrow> request \<Rightarrow> event list" where
  "dispatch e now [] req = []"
| "dispatch e now (l # ls) req =
     Invoked l #
     concat (map (\<lambda>c. case c of
                         Send r \<Rightarrow> [Sent r]
                       | Log label err \<Rightarrow> [Printed label err]
                       | Next req' \<Rightarrow> dispatch e now ls req')
                 (run_layer e now l req))"

text \<open>The layers a dispatch invoked and the responses it sent, in order.\<close>

definition layers_of :: "event list \<Rightarrow> layer list" where
  "layers_of tr = concat (map (\<lambda>ev. case ev of Invoked l \<Rightarrow> [l] | _ \<Rightarrow> []) tr)"

definition sent_of :: "event list \<Rightarrow> response list" where
  "sent_of tr = concat (map (\<lambda>ev. case ev of Sent r \<Rightarrow> [r] | _ \<Rightarrow> []) tr)"

section \<open>The token library\<close>

text \<open>
  The library that signs and verifies tokens (jose) is not part of the source tree; the
  environment above takes its two entry points as parameters. This section gives the
  library the spec describes, to instantiate them with.

  A signed token before serialisation: protected header, claims set and signature. The
  compact serialisation (base64url of JSON, joined by dots) and the keyed hash stay
  parameters.
\<close>

record jws =
  protected_header :: jsobj
  payload :: jsobj
  signature :: string

record codec =
  encode :: "jws \<Rightarrow> string"
  decode :: "string \<Rightarrow> jws option"

type_synonym mac = "string \<Rightarrow> jsobj \<times> jsobj \<Rightarrow> string"

text \<open>
  Modelled from the spec: how the library reads an expiration span is not in the source
  tree. The spec (4.2) gives the expiration as on the order of one minute, for the span the
  source writes \<open>1m\<close>: decimal digits and a unit letter (seconds, minutes, hours, days).
\<close>

definition digit_val :: "char \<Rightarrow> nat option" where
  "digit_val c =
     (let n = (of_char c :: nat) in if 48 \<le> n \<and> n \<le> 57 then Some (n - 48) else None)"

fun number :: "nat \<Rightarrow> string \<Rightarrow> nat option" where
  "number acc [] = Some acc"
| "number acc (c # cs) =
     (case digit_val c of None \<Rightarrow> None | Some d \<Rightarrow> number (10 * acc + d) cs)"

definition unit_secs :: "char \<Rightarrow> nat option" where
  "unit_secs c =
     (if c = CHR ''s'' then Some 1
      else if c = CHR ''m'' then Some 60
      else if c = CHR ''h'' then Some 3600
      else if c = CHR ''d'' then Some 86400
      else None)"

definition secs :: "string \<Rightarrow> nat option" where
  "secs span =
     (case rev span of
        [] \<Rightarrow> None
      | u # ds \<Rightarrow>
          if ds = [] then None
          else (case (number 0 (rev ds), unit_secs u) of
                  (Some n, Some k) \<Rightarrow> Some (n * k)
                | _ \<Rightarrow> None))"

text \<open>
  Modelled from the spec: the token library (jose, \<open>SignJWT\<close> and \<open>jwtVerify\<close>) is not part
  of the source tree. Issuing (4.2): a keyed signature over a payload holding the given
  claims plus a server-set expiration claim, the clock plus the span; it fails with
  \<open>SigningError\<close> when the secret is absent.
\<close>

definition jose_signJWT ::
  "codec \<Rightarrow> mac \<Rightarrow> jsobj \<Rightarrow> jsobj \<Rightarrow> string \<Rightarrow> string \<Rightarrow> nat \<Rightarrow> exn + string" where
  "jose_signJWT cd hm claims_in header span key now =
     (case secs span of
        None \<Rightarrow> Inl (Error ''Invalid time period format'')
      | Some d \<Rightarrow>
          if key = [] then Inl SigningError
          else
            (let cl = claims_in @ [(''exp'', JNum (int (now + d)))] in
             Inr (encode cd \<lparr>protected_header = header, payload = cl,
                               signature = hm key (header, cl)\<rparr>)))"

text \<open>
  Modelled from the spec: verification (4.3) fails with \<open>malformed\<close>, \<open>badSignature\<close> or
  \<open>expired\<close> on a structurally invalid token, a signature mismatch, or an expiration
  timestamp in the past; otherwise it produces the claims.
\<close>

definition jose_jwtVerify ::
  "codec \<Rightarrow> mac \<Rightarrow> string \<Rightarrow> string \<Rightarrow> nat \<Rightarrow> exn + jsobj" where
  "jose_jwtVerify cd hm token key now =
     (case decode cd token of
        None \<Rightarrow> Inl Malformed
      | Some j \<Rightarrow>
          if signature j \<noteq> hm key (protected_header j, payload j) then Inl BadSignature
          else
            (case get_prop (payload j) ''exp'' of
               JUndefined \<Rightarrow> Inr (payload j)
             | JNum t \<Rightarrow> if t < int now then Inl Expired else Inr (payload j)
             | _ \<Rightarrow> Inl Malformed))"

section \<open>A running example\<close>

text \<open>
  The three accounts the seed script inserts, with stand-ins for the libraries: a password
  hash that only tags the password, a keyed hash that only tags the key, and a
  serialisation that knows one token, the one \<open>admin1\<close> is issued at second 1000.
\<close>

definition seed_hash :: "string \<Rightarrow> string" where
  "seed_hash p = ''hashed:'' @ p"

definition seeded :: "user_row list" where
  "seeded =
     [\<lparr>u_id = 1, u_username = ''user1'', u_passwordHashed = seed_hash ''password1'',
       u_role = ''user''\<rparr>,
      \<lparr>u_id = 2, u_username = ''advisor1'', u_passwordHashed = seed_hash ''password2'',
       u_role = ''advisor''\<rparr>,
      \<lparr>u_id = 3, u_username = ''admin1'', u_passwordHashed = seed_hash ''password3'',
       u_role = ''admin''\<rparr>]"

definition seeded_db :: connection where
  "seeded_db sql params =
     (case params of
        [JStr name] \<Rightarrow> Inr (find (\<lambda>r. u_username r = name) seeded)
      | _ \<Rightarrow> Inr None)"

definition failing_db :: connection where
  "failing_db sql params = Inl (Error ''SQLITE_CANTOPEN'')"

definition toy_compare :: "jsval \<Rightarrow> string \<Rightarrow> exn + bool" where
  "toy_compare data h =
     (case data of
        JStr p \<Rightarrow> Inr (h = seed_hash p)
      | _ \<Rightarrow> Inl (Error ''data and hash must be strings''))"

definition toy_mac :: mac where
  "toy_mac key signed = ''mac:'' @ key"

definition admin_jws :: jws where
  "admin_jws =
     \<lparr>protected_header = [(''alg'', JStr ''HS256'')],
      payload = [(''id'', JNum 3), (''username'', JStr ''admin1''), (''role'', JStr ''admin''),
                 (''exp'', JNum 1060)],
      signature = ''mac:s3cret''\<rparr>"

definition toy_codec :: codec where
  "toy_codec =
     \<lparr>encode = (\<lambda>j. if j = admin_jws then ''admin1.token'' else ''other.token''),
      decode = (\<lambda>s. if s = ''admin1.token'' then Some admin_jws else None)\<rparr>"

definition example_env :: env where
  "example_env =
     \<lparr>db = Some seeded_db,
      JWT_SECRET = Some ''s3cret'',
      bcrypt_compare = toy_compare,
      signJWT = jose_signJWT toy_codec toy_mac,
      jwtVerify = jose_jwtVerify toy_codec toy_mac\<rparr>"

definition anonymous :: request where
  "anonymous = \<lparr>authorization = None, user = None\<rparr>"

definition as_role :: "string \<Rightarrow> request" where
  "as_role r =
     \<lparr>authorization = Some ''Bearer admin1.token'',
      user = Some \<lparr>claim_id = JNum 7, claim_username = JStr ''someone'', claim_role = JStr r\<rparr>\<rparr>"

definition bearer_admin :: request where
  "bearer_admin = \<lparr>authorization = Some ''Bearer admin1.token'', user = None\<rparr>"

definition admin_row :: user_row where
  "admin_row =
     \<lparr>u_id = 3, u_username = ''admin1'', u_passwordHashed = seed_hash ''password3'',
      u_role = ''admin''\<rparr>"

section \<open>Auxiliary facts\<close>

lemma split_on_not_Nil: "split_on sep s \<noteq> []"
  by (induction s) (auto split: list.splits)

lemma split_on_no_sep: "sep \<notin> set s \<Longrightarrow> split_on sep s = [s]"
  by (induction s) auto

lemma split_on_word:
  "sep \<notin> set w \<Longrightarrow> split_on sep (w @ sep # rest) = w # split_on sep rest"
  by (induction w) auto

lemma second_piece:
  assumes "CHR '' '' \<notin> set w" and "CHR '' '' \<notin> set tok"
  shows "at_index (split_on CHR '' '' (w @ CHR '' '' # tok)) (Suc 0) = Some tok"
  using assms by (simp add: split_on_word split_on_no_sep at_index_def)

lemma secs_1m: "secs ''1m'' = Some 60"
  by (simp add: secs_def unit_secs_def digit_val_def)

lemma login_validated:
  assumes "truthy (get_prop b ''username'')" and "truthy (get_prop b ''password'')"
  shows "login e now b =
     (case login_try e now (get_prop b ''username'') (get_prop b ''password'') of
        (Inr resp, out) \<Rightarrow> (resp, out)
      | (Inl err, out) \<Rightarrow>
          (status_json 500 [(''message'', JStr ''Server error'')],
           out @ [(''Login error:'', err)]))"
  using assms by (simp add: login_def)

lemma login_try_keys:
  "login_try e now un pw = (Inr resp, out) \<Longrightarrow> ''passwordHashed'' \<notin> fst ` set (body resp)"
  by (auto simp: login_try_def json_def status_json_def
      split: sum.splits option.splits if_splits prod.splits)

text \<open>No response of \<open>login\<close>, of any status, has a \<open>passwordHashed\<close> field.\<close>

lemma login_never_hash_field: "''passwordHashed'' \<notin> fst ` set (body (fst (login e now b)))"
proof (cases "login_try e now (get_prop b ''username'') (get_prop b ''password'')")
  case (Pair r out)
  then show ?thesis
    by (cases r) (auto simp: login_def status_json_def Let_def dest: login_try_keys)
qed

lemma example_rows:
  "seeded_db ''SELECT * FROM users WHERE username = ?'' [JStr ''ghost''] = Inr None"
  "seeded_db ''SELECT * FROM users WHERE username = ?'' [JStr ''admin1''] = Inr (Some admin_row)"
  by (simp_all add: seeded_db_def seeded_def admin_row_def)

lemma example_token:
  "generateToken example_env 1000 admin_row = (Inr ''admin1.token'', [])"
  by (simp add: generateToken_def example_env_def jose_signJWT_def secs_1m text_encode_def
      toy_codec_def toy_mac_def admin_jws_def admin_row_def)

section \<open>Login\<close>

text \<open>
  Claim C1. An unknown username and a wrong password on an existing username are to get
  the same reply, 401 \<open>{"message":"Invalid credentials"}\<close>, so that the reply does not tell
  which usernames exist; the comments of \<open>login\<close> say so too. The code does not keep this
  when the password verifier throws instead of answering, as it does on a password that is
  not a string: for two validated requests, the first with a username the store does not
  have, the second with a stored username and a password the verifier throws on, the first
  reply is the 401 and the second is 500 \<open>{"message":"Server error"}\<close>. The two replies
  differ, and the second one shows that the username exists.
\<close>

theorem login_verifier_throw_reveals_user:
  assumes "truthy (get_prop b1 ''username'')" and "truthy (get_prop b1 ''password'')"
    and "truthy (get_prop b2 ''username'')" and "truthy (get_prop b2 ''password'')"
    and "db e = Some conn"
    and "conn ''SELECT * FROM users WHERE username = ?'' [get_prop b1 ''username''] = Inr None"
    and "conn ''SELECT * FROM users WHERE username = ?'' [get_prop b2 ''username'']
           = Inr (Some u)"
    and "bcrypt_compare e (get_prop b2 ''password'') (u_passwordHashed u) = Inl err"
  shows "fst (login e now b1) =
           \<lparr>status = 401, body = [(''message'', JStr ''Invalid credentials'')]\<rparr>
       \<and> fst (login e now b2) =
           \<lparr>status = 500, body = [(''message'', JStr ''Server error'')]\<rparr>
       \<and> fst (login e now b1) \<noteq> fst (login e now b2)"
  using assms by (simp add: login_validated login_try_def getDB_def status_json_def)

theorem login_verifier_throw_reveals_user_witness:
  "fst (login example_env 1000 [(''username'', JStr ''ghost''), (''password'', JNum 5)]) =
     \<lparr>status = 401, body = [(''message'', JStr ''Invalid credentials'')]\<rparr>
   \<and> fst (login example_env 1000 [(''username'', JStr ''admin1''), (''password'', JNum 5)]) =
     \<lparr>status = 500, body = [(''message'', JStr ''Server error'')]\<rparr>"
proof -
  let ?b1 = "[(''username'', JStr ''ghost''), (''password'', JNum 5)]"
  let ?b2 = "[(''username'', JStr ''admin1''), (''password'', JNum 5)]"
  have v: "truthy (get_prop ?b1 ''username'')" "truthy (get_prop ?b1 ''password'')"
          "truthy (get_prop ?b2 ''username'')" "truthy (get_prop ?b2 ''password'')"
    by (simp_all add: get_prop_def)
  have d: "db example_env = Some seeded_db"
    by (simp add: example_env_def)
  have a: "seeded_db ''SELECT * FROM users WHERE username = ?'' [get_prop ?b1 ''username'']
             = Inr None"
    by (simp add: get_prop_def example_rows)
  have p: "seeded_db ''SELECT * FROM users WHERE username = ?'' [get_prop ?b2 ''username'']
             = Inr (Some admin_row)"
    by (simp add: get_prop_def example_rows)
  have t: "bcrypt_compare example_env (get_prop ?b2 ''password'') (u_passwordHashed admin_row)
             = Inl (Error ''data and hash must be strings'')"
    by (simp add: get_prop_def example_env_def toy_compare_def)
  show ?thesis
    using login_verifier_throw_reveals_user [OF v d a p t, of 1000] by simp
qed

text \<open>
  When the verifier answers, the two cases do get the same reply: for validated requests,
  a username the store does not have and a stored username whose password the verifier
  reports as no match both get the 401, with nothing printed.
\<close>

lemma login_invalid_credentials_same:
  assumes "truthy (get_prop b1 ''username'')" and "truthy (get_prop b1 ''password'')"
    and "truthy (get_prop b2 ''username'')" and "truthy (get_prop b2 ''password'')"
    and "db e = Some conn"
    and "conn ''SELECT * FROM users WHERE username = ?'' [get_prop b1 ''username''] = Inr None"
    and "conn ''SELECT * FROM users WHERE username = ?'' [get_prop b2 ''username'']
           = Inr (Some u)"
    and "bcrypt_compare e (get_prop b2 ''password'') (u_passwordHashed u) = Inr False"
  shows "login e now b1 = (status_json 401 [(''message'', JStr ''Invalid credentials'')], [])
       \<and> login e now' b2 = (status_json 401 [(''message'', JStr ''Invalid credentials'')], [])
       \<and> body (fst (login e now b1)) = body (fst (login e now' b2))"
  using assms by (simp add: login_validated login_try_def getDB_def)

text \<open>
  A request with an empty username or password does not reach the lookup: the reply is
  400, for a username the store has as for one it does not have.
\<close>

lemma login_empty_password:
  "fst (login e now [(''username'', JStr name), (''password'', JStr '''')]) =
     \<lparr>status = 400, body = [(''message'', JStr ''Username and password required'')]\<rparr>"
  by (simp add: login_def get_prop_def status_json_def)

text \<open>
  Claim C5. When the store returns the user's row, the password verifier reports a match
  and the token is issued (all of which \<open>login\<close> does only for a request that has passed
  the input validation), the reply is 200 with the body
  \<open>{id, username, role, token}\<close>, the first three read from the row, the fourth the issued
  token; these are its only fields, and \<open>passwordHashed\<close> is not one of them.
\<close>

theorem login_success:
  assumes "truthy (get_prop b ''username'')" and "truthy (get_prop b ''password'')"
    and "db e = Some conn"
    and "conn ''SELECT * FROM users WHERE username = ?'' [get_prop b ''username'']
           = Inr (Some u)"
    and "bcrypt_compare e (get_prop b ''password'') (u_passwordHashed u) = Inr True"
    and "generateToken e now u = (Inr token, out)"
  shows "fst (login e now b) =
           \<lparr>status = 200,
            body = [(''id'', JNum (u_id u)), (''username'', JStr (u_username u)),
                    (''role'', JStr (u_role u)), (''token'', JStr token)]\<rparr>
       \<and> map fst (body (fst (login e now b))) = [''id'', ''username'', ''role'', ''token'']
       \<and> ''passwordHashed'' \<notin> fst ` set (body (fst (login e now b)))"
  using assms by (simp add: login_validated login_try_def getDB_def json_def status_json_def)

theorem login_success_witness:
  "fst (login example_env 1000
          [(''username'', JStr ''admin1''), (''password'', JStr ''password3'')]) =
     \<lparr>status = 200,
      body = [(''id'', JNum 3), (''username'', JStr ''admin1''), (''role'', JStr ''admin''),
              (''token'', JStr ''admin1.token'')]\<rparr>"
proof -
  let ?b = "[(''username'', JStr ''admin1''), (''password'', JStr ''password3'')]"
  have v: "truthy (get_prop ?b ''username'')" "truthy (get_prop ?b ''password'')"
    by (simp_all add: get_prop_def)
  have d: "db example_env = Some seeded_db"
    by (simp add: example_env_def)
  have p: "seeded_db ''SELECT * FROM users WHERE username = ?'' [get_prop ?b ''username'']
             = Inr (Some admin_row)"
    by (simp add: get_prop_def example_rows)
  have m: "bcrypt_compare example_env (get_prop ?b ''password'') (u_passwordHashed admin_row)
             = Inr True"
    by (simp add: get_prop_def example_env_def toy_compare_def seed_hash_def admin_row_def)
  show ?thesis
    using login_success [OF v d p m example_token] by (simp add: admin_row_def)
qed

text \<open>
  Claim C9. When a request has passed validation and something then throws (the
  connection was never opened, the lookup rejects, the password verifier throws, or signing
  the token fails), the reply is 500 with the body \<open>{"message":"Server error"}\<close>, the same
  whatever was thrown; the error itself goes to the console only.
\<close>

theorem login_server_error:
  assumes "truthy (get_prop b ''username'')" and "truthy (get_prop b ''password'')"
    and "db e = None \<and> err = Error ''Database not connected. Call connectDB() first.''
       \<or> (\<exists>conn. db e = Some conn \<and>
            (conn ''SELECT * FROM users WHERE username = ?'' [get_prop b ''username''] = Inl err
             \<or> (\<exists>u. conn ''SELECT * FROM users WHERE username = ?'' [get_prop b ''username'']
                        = Inr (Some u) \<and>
                    (bcrypt_compare e (get_prop b ''password'') (u_passwordHashed u) = Inl err
                     \<or> bcrypt_compare e (get_prop b ''password'') (u_passwordHashed u) = Inr True
                       \<and> fst (generateToken e now u) = Inl err))))"
  shows "fst (login e now b) = \<lparr>status = 500, body = [(''message'', JStr ''Server error'')]\<rparr>
       \<and> (''Login error:'', err) \<in> set (snd (login e now b))"
  using assms
  by (auto simp: login_validated login_try_def getDB_def status_json_def
      split: prod.splits sum.splits)

theorem login_server_error_witness:
  "fst (login (example_env\<lparr>db := None\<rparr>) 1000
          [(''username'', JStr ''admin1''), (''password'', JStr ''password3'')]) =
     \<lparr>status = 500, body = [(''message'', JStr ''Server error'')]\<rparr>
   \<and> fst (login (example_env\<lparr>db := Some failing_db\<rparr>) 1000
          [(''username'', JStr ''admin1''), (''password'', JStr ''password3'')]) =
     \<lparr>status = 500, body = [(''message'', JStr ''Server error'')]\<rparr>
   \<and> fst (login example_env 1000 [(''username'', JStr ''admin1''), (''password'', JNum 5)]) =
     \<lparr>status = 500, body = [(''message'', JStr ''Server error'')]\<rparr>
   \<and> fst (login (example_env\<lparr>JWT_SECRET := None\<rparr>) 1000
          [(''username'', JStr ''admin1''), (''password'', JStr ''password3'')]) =
     \<lparr>status = 500, body = [(''message'', JStr ''Server error'')]\<rparr>"
proof -
  let ?b = "[(''username'', JStr ''admin1''), (''password'', JStr ''password3'')]"
  let ?c = "[(''username'', JStr ''admin1''), (''password'', JNum 5)]"
  have v: "truthy (get_prop ?b ''username'')" "truthy (get_prop ?b ''password'')"
    and v': "truthy (get_prop ?c ''username'')" "truthy (get_prop ?c ''password'')"
    by (simp_all add: get_prop_def)
  have 1: "fst (login (example_env\<lparr>db := None\<rparr>) 1000 ?b) =
           \<lparr>status = 500, body = [(''message'', JStr ''Server error'')]\<rparr>"
    using login_server_error [OF v, of "example_env\<lparr>db := None\<rparr>"
        "Error ''Database not connected. Call connectDB() first.''" 1000]
    by simp
  have 2: "fst (login (example_env\<lparr>db := Some failing_db\<rparr>) 1000 ?b) =
           \<lparr>status = 500, body = [(''message'', JStr ''Server error'')]\<rparr>"
    using login_server_error [OF v, of "example_env\<lparr>db := Some failing_db\<rparr>"
        "Error ''SQLITE_CANTOPEN''" 1000]
    by (simp add: failing_db_def)
  have 3: "fst (login example_env 1000 ?c) =
           \<lparr>status = 500, body = [(''message'', JStr ''Server error'')]\<rparr>"
    using login_server_error [OF v', of example_env "Error ''data and hash must be strings''" 1000]
    by (simp add: get_prop_def example_env_def example_rows toy_compare_def)
  have 4: "fst (login (example_env\<lparr>JWT_SECRET := None\<rparr>) 1000 ?b) =
           \<lparr>status = 500, body = [(''message'', JStr ''Server error'')]\<rparr>"
    using login_server_error [OF v, of "example_env\<lparr>JWT_SECRET := None\<rparr>" SigningError 1000]
    by (simp add: get_prop_def example_env_def example_rows toy_compare_def seed_hash_def
        admin_row_def generateToken_def jose_signJWT_def secs_1m text_encode_def)
  show ?thesis using 1 2 3 4 by simp
qed

section \<open>The access gate\<close>

text \<open>
  Claim C2. For every request (claims present or absent) and every list of required roles,
  \<open>checkRole\<close> sends 403 exactly when \<open>req.user\<close> is absent or its role is not one of the
  required roles, and otherwise calls \<open>next()\<close> with the request unchanged. With the
  required roles \<open>[admin]\<close> the role \<open>advisor\<close> is denied and the role \<open>admin\<close> is allowed: a
  role passes only by being listed.
\<close>

theorem checkRole_membership:
  "(checkRole (Some roles) req =
      Responded (status_json 403
        [(''message'', JStr ''Access denied: insufficient permissions'')]))
     = (user req = None \<or> (\<exists>u. user req = Some u \<and> claim_role u \<notin> JStr ` set roles))
   \<and> (checkRole (Some roles) req = CallNext req)
     = (\<exists>u. user req = Some u \<and> claim_role u \<in> JStr ` set roles)
   \<and> checkRole (Some [''admin'']) (req\<lparr>user := Some (u\<lparr>claim_role := JStr ''advisor''\<rparr>)\<rparr>) =
       Responded (status_json 403
         [(''message'', JStr ''Access denied: insufficient permissions'')])
   \<and> checkRole (Some [''admin'']) (req\<lparr>user := Some (u\<lparr>claim_role := JStr ''admin''\<rparr>)\<rparr>) =
       CallNext (req\<lparr>user := Some (u\<lparr>claim_role := JStr ''admin''\<rparr>)\<rparr>)"
  by (auto simp: checkRole_def includes_js_def split: option.splits)

theorem checkRole_membership_witness:
  "checkRole (Some [''advisor'', ''admin'']) (as_role ''advisor'') = CallNext (as_role ''advisor'')
   \<and> checkRole (Some [''admin'']) (as_role ''advisor'') =
       Responded (status_json 403
         [(''message'', JStr ''Access denied: insufficient permissions'')])
   \<and> checkRole (Some [''admin'']) (as_role ''admin'') = CallNext (as_role ''admin'')
   \<and> checkRole (Some [''admin'']) anonymous =
       Responded (status_json 403
         [(''message'', JStr ''Access denied: insufficient permissions'')])"
  using checkRole_membership [of "[''advisor'', ''admin'']" "as_role ''advisor''"]
        checkRole_membership [of "[''admin'']" "as_role ''advisor''"]
        checkRole_membership [of "[''admin'']" "as_role ''admin''"]
        checkRole_membership [of "[''admin'']" anonymous]
  by (simp add: as_role_def anonymous_def)

text \<open>
  Claim C10. With an empty list of required roles, which is also what \<open>checkRole()\<close> takes
  when called without an argument, the gate sends 403 for every request, whatever claims
  it carries: no role is a member of the empty list.
\<close>

theorem checkRole_empty_fail_closed:
  "checkRole None req =
     Responded (status_json 403
       [(''message'', JStr ''Access denied: insufficient permissions'')])
   \<and> checkRole (Some []) req =
     Responded (status_json 403
       [(''message'', JStr ''Access denied: insufficient permissions'')])"
  by (simp add: checkRole_def includes_js_def split: option.splits)

theorem checkRole_empty_fail_closed_witness:
  "checkRole None (as_role ''admin'') =
     Responded \<lparr>status = 403,
       body = [(''message'', JStr ''Access denied: insufficient permissions'')]\<rparr>
   \<and> checkRole (Some []) (as_role ''admin'') =
     Responded \<lparr>status = 403,
       body = [(''message'', JStr ''Access denied: insufficient permissions'')]\<rparr>"
  using checkRole_empty_fail_closed [of "as_role ''admin''"] by (simp add: status_json_def)

section \<open>Token verification\<close>

text \<open>
  Claim C3, as the code has it. The scheme word of the header is never compared with
  \<open>Bearer\<close>; what is verified is the second piece of the header split at spaces. So
  verification fails (a response is sent, no claims are attached) for every header that is
  a single word, a token presented with no scheme in front of it included, and for every
  header whose second piece the library rejects (structurally invalid, signature mismatch,
  past expiration); and a header made of any scheme word, a space and a token the library
  accepts is accepted, with the claims of that token.
\<close>

theorem verifyToken_scheme_not_inspected:
  "(authorization req = Some h \<and> CHR '' '' \<notin> set h \<longrightarrow>
        (\<exists>r. fst (verifyToken e now req) = Responded r \<and> status r = 401))
   \<and> (authorization req = Some h \<and>
          at_index (split_on CHR '' '' h) 1 = Some piece \<and>
          jwtVerify e piece (text_encode (JWT_SECRET e)) now = Inl err
        \<longrightarrow> (\<exists>r. fst (verifyToken e now req) = Responded r \<and> status r \<in> {401, 403}))
   \<and> (CHR '' '' \<notin> set scheme \<and> CHR '' '' \<notin> set token \<and> token \<noteq> [] \<and>
          authorization req = Some (scheme @ CHR '' '' # token) \<and>
          jwtVerify e token (text_encode (JWT_SECRET e)) now = Inr claims_in
        \<longrightarrow> fst (verifyToken e now req) =
              CallNext (req\<lparr>user := Some \<lparr>claim_id = get_prop claims_in ''id'',
                                          claim_username = get_prop claims_in ''username'',
                                          claim_role = get_prop claims_in ''role''\<rparr>\<rparr>))"
proof (intro conjI impI)
  assume "authorization req = Some h \<and> CHR '' '' \<notin> set h"
  then show "\<exists>r. fst (verifyToken e now req) = Responded r \<and> status r = 401"
    by (simp add: verifyToken_def split_on_no_sep at_index_def status_json_def)
next
  assume "authorization req = Some h \<and> at_index (split_on CHR '' '' h) 1 = Some piece \<and>
          jwtVerify e piece (text_encode (JWT_SECRET e)) now = Inl err"
  then show "\<exists>r. fst (verifyToken e now req) = Responded r \<and> status r \<in> {401, 403}"
    by (simp add: verifyToken_def status_json_def)
next
  assume a: "CHR '' '' \<notin> set scheme \<and> CHR '' '' \<notin> set token \<and> token \<noteq> [] \<and>
          authorization req = Some (scheme @ CHR '' '' # token) \<and>
          jwtVerify e token (text_encode (JWT_SECRET e)) now = Inr claims_in"
  then have "at_index (split_on CHR '' '' (scheme @ CHR '' '' # token)) (Suc 0) = Some token"
    by (simp add: second_piece)
  with a show "fst (verifyToken e now req) =
              CallNext (req\<lparr>user := Some \<lparr>claim_id = get_prop claims_in ''id'',
                                          claim_username = get_prop claims_in ''username'',
                                          claim_role = get_prop claims_in ''role''\<rparr>\<rparr>)"
    by (simp add: verifyToken_def)
qed

lemma example_verify:
  "jwtVerify example_env ''admin1.token'' (text_encode (JWT_SECRET example_env)) 1010 =
     Inr (payload admin_jws)"
  "jwtVerify example_env ''admin1.token'' (text_encode (JWT_SECRET example_env)) 1061 =
     Inl Expired"
  "jwtVerify example_env ''forged.token'' (text_encode (JWT_SECRET example_env)) 1010 =
     Inl Malformed"
  by (simp_all add: example_env_def jose_jwtVerify_def toy_codec_def toy_mac_def admin_jws_def
      text_encode_def get_prop_def)

theorem verifyToken_scheme_not_inspected_witness:
  "(\<exists>r. fst (verifyToken example_env 1010 \<lparr>authorization = Some ''admin1.token'', user = None\<rparr>)
          = Responded r \<and> status r = 401)
   \<and> (\<exists>r. fst (verifyToken example_env 1010
                 \<lparr>authorization = Some ''Bearer forged.token'', user = None\<rparr>)
          = Responded r \<and> status r \<in> {401, 403})
   \<and> fst (verifyToken example_env 1010 bearer_admin) =
       CallNext (bearer_admin\<lparr>user := Some \<lparr>claim_id = JNum 3, claim_username = JStr ''admin1'',
                                            claim_role = JStr ''admin''\<rparr>\<rparr>)"
proof -
  let ?bare = "\<lparr>authorization = Some ''admin1.token'', user = None\<rparr>"
  let ?forged = "\<lparr>authorization = Some ''Bearer forged.token'', user = None\<rparr>"
  have seg: "at_index (split_on CHR '' '' ''Bearer forged.token'') 1 = Some ''forged.token''"
    by (simp add: at_index_def)
  have 1: "\<exists>r. fst (verifyToken example_env 1010 ?bare) = Responded r \<and> status r = 401"
    using verifyToken_scheme_not_inspected
      [where req = ?bare and e = example_env and now = 1010 and h = "''admin1.token''"]
    by simp
  have 2: "\<exists>r. fst (verifyToken example_env 1010 ?forged) = Responded r \<and> status r \<in> {401, 403}"
    using verifyToken_scheme_not_inspected
      [where req = ?forged and e = example_env and now = 1010 and h = "''Bearer forged.token''"
         and piece = "''forged.token''" and err = Malformed]
      seg example_verify(3)
    by simp
  have 3: "fst (verifyToken example_env 1010 bearer_admin) =
       CallNext (bearer_admin\<lparr>user := Some \<lparr>claim_id = JNum 3, claim_username = JStr ''admin1'',
                                            claim_role = JStr ''admin''\<rparr>\<rparr>)"
    using verifyToken_scheme_not_inspected
      [where req = bearer_admin and e = example_env and now = 1010 and scheme = "''Bearer''"
         and token = "''admin1.token''" and claims_in = "payload admin_jws"]
      example_verify(1)
    by (simp add: bearer_admin_def admin_jws_def get_prop_def)
  show ?thesis using 1 2 3 by blast
qed

text \<open>
  Claim C3 as stated fails: under the scheme \<open>Basic\<close> a valid token is verified and its
  claims are attached to the request.
\<close>

theorem verifyToken_accepts_basic_scheme:
  "fst (verifyToken example_env 1010 \<lparr>authorization = Some ''Basic admin1.token'', user = None\<rparr>) =
     CallNext \<lparr>authorization = Some ''Basic admin1.token'',
               user = Some \<lparr>claim_id = JNum 3, claim_username = JStr ''admin1'',
                             claim_role = JStr ''admin''\<rparr>\<rparr>"
  by (simp add: verifyToken_def at_index_def example_verify admin_jws_def get_prop_def)

text \<open>
  Claim C4, as the code has it. The middleware maps its failures to these responses: 401
  \<open>{"message":"No token provided"}\<close> when the Authorization header is absent or its value
  is the empty string; 401 \<open>{"message":"Malformed token"}\<close> when the header is not empty but
  has no second piece, or an empty one, after the split at spaces; 403
  \<open>{"message":"Invalid or expired token"}\<close> when the library rejects the token, the same
  response whatever it threw, the thrown value going to the console only. It sends no
  other response.
\<close>

theorem verifyToken_failures:
  "(authorization req = None \<or> authorization req = Some [] \<longrightarrow>
      verifyToken e now req =
        (Responded \<lparr>status = 401, body = [(''message'', JStr ''No token provided'')]\<rparr>, []))
   \<and> (authorization req = Some h \<and> h \<noteq> [] \<and>
          (at_index (split_on CHR '' '' h) 1 = None \<or>
           at_index (split_on CHR '' '' h) 1 = Some [])
        \<longrightarrow> verifyToken e now req =
              (Responded \<lparr>status = 401, body = [(''message'', JStr ''Malformed token'')]\<rparr>, []))
   \<and> (authorization req = Some h \<and> h \<noteq> [] \<and>
          at_index (split_on CHR '' '' h) 1 = Some token \<and> token \<noteq> [] \<and>
          jwtVerify e token (text_encode (JWT_SECRET e)) now = Inl err
        \<longrightarrow> verifyToken e now req =
              (Responded
                 \<lparr>status = 403, body = [(''message'', JStr ''Invalid or expired token'')]\<rparr>,
               [(''Token verification failed:'', err)]))
   \<and> (fst (verifyToken e now req) = Responded r \<longrightarrow>
        r \<in> {\<lparr>status = 401, body = [(''message'', JStr ''No token provided'')]\<rparr>,
             \<lparr>status = 401, body = [(''message'', JStr ''Malformed token'')]\<rparr>,
             \<lparr>status = 403, body = [(''message'', JStr ''Invalid or expired token'')]\<rparr>})"
  by (auto simp: verifyToken_def status_json_def split: option.splits sum.splits if_splits)

theorem verifyToken_failures_witness:
  "fst (verifyToken example_env 1010 anonymous) =
     Responded \<lparr>status = 401, body = [(''message'', JStr ''No token provided'')]\<rparr>
   \<and> fst (verifyToken example_env 1010 \<lparr>authorization = Some ''Bearer'', user = None\<rparr>) =
     Responded \<lparr>status = 401, body = [(''message'', JStr ''Malformed token'')]\<rparr>
   \<and> fst (verifyToken example_env 1010 \<lparr>authorization = Some ''Bearer '', user = None\<rparr>) =
     Responded \<lparr>status = 401, body = [(''message'', JStr ''Malformed token'')]\<rparr>
   \<and> fst (verifyToken example_env 1061 bearer_admin) =
     Responded \<lparr>status = 403, body = [(''message'', JStr ''Invalid or expired token'')]\<rparr>
   \<and> fst (verifyToken example_env 1010
            \<lparr>authorization = Some ''Bearer forged.token'', user = None\<rparr>) =
     Responded \<lparr>status = 403, body = [(''message'', JStr ''Invalid or expired token'')]\<rparr>"
proof -
  let ?word = "\<lparr>authorization = Some ''Bearer'', user = None\<rparr>"
  let ?blank = "\<lparr>authorization = Some ''Bearer '', user = None\<rparr>"
  let ?forged = "\<lparr>authorization = Some ''Bearer forged.token'', user = None\<rparr>"
  have seg: "at_index (split_on CHR '' '' ''Bearer'') 1 = None"
    "at_index (split_on CHR '' '' ''Bearer '') 1 = Some []"
    "at_index (split_on CHR '' '' ''Bearer admin1.token'') 1 = Some ''admin1.token''"
    "at_index (split_on CHR '' '' ''Bearer forged.token'') 1 = Some ''forged.token''"
    by (simp_all add: at_index_def)
  have 1: "fst (verifyToken example_env 1010 anonymous) =
     Responded \<lparr>status = 401, body = [(''message'', JStr ''No token provided'')]\<rparr>"
    using verifyToken_failures [where req = anonymous and e = example_env and now = 1010]
    by (simp add: anonymous_def)
  have 2: "fst (verifyToken example_env 1010 ?word) =
     Responded \<lparr>status = 401, body = [(''message'', JStr ''Malformed token'')]\<rparr>"
    using verifyToken_failures
      [where req = ?word and e = example_env and now = 1010 and h = "''Bearer''"] seg(1)
    by simp
  have 3: "fst (verifyToken example_env 1010 ?blank) =
     Responded \<lparr>status = 401, body = [(''message'', JStr ''Malformed token'')]\<rparr>"
    using verifyToken_failures
      [where req = ?blank and e = example_env and now = 1010 and h = "''Bearer ''"] seg(2)
    by simp
  have 4: "fst (verifyToken example_env 1061 bearer_admin) =
     Responded \<lparr>status = 403, body = [(''message'', JStr ''Invalid or expired token'')]\<rparr>"
    using verifyToken_failures
      [where req = bearer_admin and e = example_env and now = 1061
         and h = "''Bearer admin1.token''" and token = "''admin1.token''" and err = Expired]
      seg(3) example_verify(2)
    by (simp add: bearer_admin_def)
  have 5: "fst (verifyToken example_env 1010 ?forged) =
     Responded \<lparr>status = 403, body = [(''message'', JStr ''Invalid or expired token'')]\<rparr>"
    using verifyToken_failures
      [where req = ?forged and e = example_env and now = 1010
         and h = "''Bearer forged.token''" and token = "''forged.token''" and err = Malformed]
      seg(4) example_verify(3)
    by simp
  show ?thesis using 1 2 3 4 5 by simp
qed

text \<open>
  Claim C4 as stated fails: a header that is present with an empty value has no token
  piece after the scheme, yet the reply is \<open>No token provided\<close>, not \<open>Malformed token\<close>.
\<close>

theorem verifyToken_empty_header:
  "fst (verifyToken example_env 1010 \<lparr>authorization = Some '''', user = None\<rparr>) =
     Responded \<lparr>status = 401, body = [(''message'', JStr ''No token provided'')]\<rparr>"
  by (simp add: verifyToken_def status_json_def)

section \<open>Issued tokens\<close>

text \<open>
  Claim C6. The token issuer reads only \<open>id\<close>, \<open>username\<close> and \<open>role\<close> of the record it is
  given: changing the stored password hash changes nothing in its result, whatever the
  signing library, and the plaintext password is not among its arguments. What it returns
  or rethrows is the result of signing the payload \<open>{id, username, role}\<close>, copied from the
  record, with the expiration span \<open>1m\<close>. With the library as the spec describes it, the
  claims of the signed token are exactly \<open>id\<close>, \<open>username\<close>, \<open>role\<close> and the expiration claim
  \<open>exp\<close>, sixty seconds after the server's clock.
\<close>

theorem generateToken_claims:
  "generateToken e now (u\<lparr>u_passwordHashed := h\<rparr>) = generateToken e now u
   \<and> fst (generateToken e now u) =
       signJWT e
         [(''id'', JNum (u_id u)), (''username'', JStr (u_username u)),
          (''role'', JStr (u_role u))]
         [(''alg'', JStr ''HS256'')] ''1m'' (text_encode (JWT_SECRET e)) now
   \<and> (signJWT e = jose_signJWT cd hm \<and> JWT_SECRET e = Some key \<and> key \<noteq> [] \<longrightarrow>
        generateToken e now u =
          (Inr (encode cd
             \<lparr>protected_header = [(''alg'', JStr ''HS256'')],
              payload = [(''id'', JNum (u_id u)), (''username'', JStr (u_username u)),
                         (''role'', JStr (u_role u)), (''exp'', JNum (int now + 60))],
              signature = hm key ([(''alg'', JStr ''HS256'')],
                 [(''id'', JNum (u_id u)), (''username'', JStr (u_username u)),
                  (''role'', JStr (u_role u)), (''exp'', JNum (int now + 60))])\<rparr>), []))"
  by (simp add: generateToken_def jose_signJWT_def secs_1m text_encode_def Let_def
      split: sum.splits)

theorem generateToken_claims_witness:
  "generateToken example_env 1000 (admin_row\<lparr>u_passwordHashed := ''another hash''\<rparr>) =
     generateToken example_env 1000 admin_row
   \<and> generateToken example_env 1000 admin_row =
       (Inr (encode toy_codec
          \<lparr>protected_header = [(''alg'', JStr ''HS256'')],
           payload = [(''id'', JNum 3), (''username'', JStr ''admin1''),
                      (''role'', JStr ''admin''), (''exp'', JNum 1060)],
           signature = toy_mac ''s3cret'' ([(''alg'', JStr ''HS256'')],
              [(''id'', JNum 3), (''username'', JStr ''admin1''),
               (''role'', JStr ''admin''), (''exp'', JNum 1060)])\<rparr>), [])"
  using generateToken_claims
    [where e = example_env and now = 1000 and u = admin_row and h = "''another hash''"
       and cd = toy_codec and hm = toy_mac and key = "''s3cret''"]
  by (simp add: example_env_def admin_row_def)

text \<open>
  Claim C7. With the library as the spec describes it: a token issued at second \<open>issued\<close>
  that the serialisation reads back unambiguously, presented as \<open>Bearer <token>\<close> at any
  time later than \<open>issued + 60\<close>, is answered 403 \<open>{"message":"Invalid or expired token"}\<close>.
  Its signature is correct: presented before \<open>issued + 60\<close>, the same token is accepted
  with the claims of the user it was issued to.
\<close>

theorem expired_token_rejected:
  assumes "signJWT e = jose_signJWT cd hm" and "jwtVerify e = jose_jwtVerify cd hm"
    and "generateToken e issued u = (Inr token, out)"
    and "\<forall>j. encode cd j = token \<longrightarrow> decode cd token = Some j"
    and "CHR '' '' \<notin> set token" and "token \<noteq> []"
    and "authorization req = Some (''Bearer'' @ CHR '' '' # token)"
  shows "(issued + 60 < now \<longrightarrow>
           fst (verifyToken e now req) =
             Responded
               \<lparr>status = 403, body = [(''message'', JStr ''Invalid or expired token'')]\<rparr>)
       \<and> (now < issued + 60 \<longrightarrow>
           fst (verifyToken e now req) =
             CallNext (req\<lparr>user := Some \<lparr>claim_id = JNum (u_id u),
                                         claim_username = JStr (u_username u),
                                         claim_role = JStr (u_role u)\<rparr>\<rparr>))"
proof -
  let ?key = "text_encode (JWT_SECRET e)"
  let ?hdr = "[(''alg'', JStr ''HS256'')]"
  let ?cl = "[(''id'', JNum (u_id u)), (''username'', JStr (u_username u)),
              (''role'', JStr (u_role u)), (''exp'', JNum (int (issued + 60)))]"
  let ?j = "\<lparr>protected_header = ?hdr, payload = ?cl, signature = hm ?key (?hdr, ?cl)\<rparr>"
  have enc: "encode cd ?j = token"
    using assms(1,3)
    by (auto simp: generateToken_def jose_signJWT_def secs_1m Let_def split: if_splits)
  then have dec: "decode cd token = Some ?j"
    using assms(4) by blast
  have seg: "at_index (split_on CHR '' '' (''Bearer'' @ CHR '' '' # token)) (Suc 0) = Some token"
    using assms(5) by (intro second_piece) simp_all
  have late: "issued + 60 < now \<Longrightarrow> jose_jwtVerify cd hm token ?key now = Inl Expired"
    using dec by (simp add: jose_jwtVerify_def get_prop_def)
  have early: "now < issued + 60 \<Longrightarrow> jose_jwtVerify cd hm token ?key now = Inr ?cl"
    using dec by (simp add: jose_jwtVerify_def get_prop_def)
  show ?thesis
    using assms(2,6,7) seg late early
    by (auto simp: verifyToken_def status_json_def get_prop_def simp del: append.simps)
qed

theorem expired_token_rejected_witness:
  "generateToken example_env 1000 admin_row = (Inr ''admin1.token'', [])
   \<and> fst (verifyToken example_env 1061 bearer_admin) =
       Responded \<lparr>status = 403, body = [(''message'', JStr ''Invalid or expired token'')]\<rparr>
   \<and> fst (verifyToken example_env 1059 bearer_admin) =
       CallNext (bearer_admin\<lparr>user := Some \<lparr>claim_id = JNum 3, claim_username = JStr ''admin1'',
                                            claim_role = JStr ''admin''\<rparr>\<rparr>)"
proof -
  have lib: "signJWT example_env = jose_signJWT toy_codec toy_mac"
    "jwtVerify example_env = jose_jwtVerify toy_codec toy_mac"
    by (simp_all add: example_env_def)
  have unambiguous: "\<forall>j. encode toy_codec j = ''admin1.token'' \<longrightarrow>
                  decode toy_codec ''admin1.token'' = Some j"
    by (simp add: toy_codec_def)
  have shape: "CHR '' '' \<notin> set ''admin1.token''" "''admin1.token'' \<noteq> []"
    by simp_all
  have hdr: "authorization bearer_admin = Some (''Bearer'' @ CHR '' '' # ''admin1.token'')"
    by (simp add: bearer_admin_def)
  show ?thesis
    using expired_token_rejected [OF lib example_token unambiguous shape hdr, of 1061]
          expired_token_rejected [OF lib example_token unambiguous shape hdr, of 1059]
          example_token
    by (simp add: admin_row_def)
qed

section \<open>The guard chain\<close>

text \<open>The calls of the two guards agree with their outcomes as stated above.\<close>

lemma verifyToken_calls_outcome:
  "verifyToken_calls e now req =
     (case verifyToken e now req of
        (Responded r, out) \<Rightarrow> map (\<lambda>(label, err). Log label err) out @ [Send r]
      | (CallNext req', out) \<Rightarrow> map (\<lambda>(label, err). Log label err) out @ [Next req'])"
  by (simp add: verifyToken_calls_def verifyToken_def split: option.splits sum.splits)

lemma checkRole_calls_outcome:
  "checkRole_calls rs req =
     (case checkRole rs req of Responded r \<Rightarrow> [Send r] | CallNext req' \<Rightarrow> [Next req'])"
  by (simp add: checkRole_calls_def checkRole_def Let_def split: option.splits)

text \<open>
  On every path through its body a guard makes exactly one of the two calls: it sends one
  response, or it calls \<open>next()\<close> once.
\<close>

lemma verifyToken_calls_shape:
  "(\<exists>r. verifyToken_calls e now req = [Send r])
   \<or> (\<exists>err r. verifyToken_calls e now req = [Log ''Token verification failed:'' err, Send r])
   \<or> (\<exists>req'. verifyToken_calls e now req = [Next req'])"
  by (simp add: verifyToken_calls_def split: option.splits sum.splits)

lemma checkRole_calls_shape:
  "(\<exists>r. checkRole_calls rs req = [Send r]) \<or> checkRole_calls rs req = [Next req]"
  by (simp add: checkRole_calls_def Let_def split: option.splits)

lemma verifyToken_calls_next:
  "Next q \<in> set (verifyToken_calls e now req) \<longleftrightarrow>
     (\<exists>hd tok pl. authorization req = Some hd \<and> hd \<noteq> [] \<and>
        at_index (split_on CHR '' '' hd) 1 = Some tok \<and> tok \<noteq> [] \<and>
        jwtVerify e tok (text_encode (JWT_SECRET e)) now = Inr pl \<and>
        q = req\<lparr>user := Some \<lparr>claim_id = get_prop pl ''id'',
                              claim_username = get_prop pl ''username'',
                              claim_role = get_prop pl ''role''\<rparr>\<rparr>)"
  by (auto simp: verifyToken_calls_def split: option.splits sum.splits)

lemma checkRole_calls_next:
  "Next q' \<in> set (checkRole_calls rs q) \<longleftrightarrow>
     q' = q \<and> (\<exists>u. user q = Some u \<and>
        includes_js (case rs of None \<Rightarrow> [] | Some x \<Rightarrow> x) (claim_role u))"
  by (auto simp: checkRole_calls_def Let_def split: option.splits)

text \<open>
  Claim C8. On a protected route (token verification, role check, handler; or token
  verification, handler), with the router as the spec describes it: when \<open>verifyToken\<close>
  sends a response, that response is the only one sent and no further layer is invoked;
  when it calls \<open>next()\<close> and \<open>checkRole\<close> sends a response, that response is the only one
  sent and the handler is not invoked. The handler is invoked exactly when every guard
  before it has let the request through, that is when the header carries a second piece
  that the library verifies and, on a route with a role check, the role of the verified
  claims is one of the required roles; then the only response sent is the handler's. This
  rests on the bodies of the two guards: a guard that sent a response and called \<open>next()\<close>
  as well would have the handler run after the denial.
\<close>

theorem guard_chain_short_circuits:
  assumes "tr = dispatch e now [VerifyToken, CheckRole rs, Handler h] req"
    and "tr' = dispatch e now [VerifyToken, Handler h] req"
  shows "(Send r \<in> set (verifyToken_calls e now req) \<longrightarrow>
            sent_of tr = [r] \<and> layers_of tr = [VerifyToken] \<and>
            sent_of tr' = [r] \<and> layers_of tr' = [VerifyToken])
       \<and> (Next req' \<in> set (verifyToken_calls e now req) \<and>
          Send r \<in> set (checkRole_calls rs req') \<longrightarrow>
            sent_of tr = [r] \<and> layers_of tr = [VerifyToken, CheckRole rs])
       \<and> (Next req' \<in> set (verifyToken_calls e now req) \<and>
          Next req'' \<in> set (checkRole_calls rs req') \<longrightarrow>
            sent_of tr = [h req''] \<and> layers_of tr = [VerifyToken, CheckRole rs, Handler h])
       \<and> (Next req' \<in> set (verifyToken_calls e now req) \<longrightarrow>
            sent_of tr' = [h req'] \<and> layers_of tr' = [VerifyToken, Handler h])
       \<and> ((\<exists>l \<in> set (layers_of tr). is_handler l) =
            (\<exists>hd tok pl. authorization req = Some hd \<and> hd \<noteq> [] \<and>
               at_index (split_on CHR '' '' hd) 1 = Some tok \<and> tok \<noteq> [] \<and>
               jwtVerify e tok (text_encode (JWT_SECRET e)) now = Inr pl \<and>
               includes_js (case rs of None \<Rightarrow> [] | Some x \<Rightarrow> x) (get_prop pl ''role'')))
       \<and> ((\<exists>l \<in> set (layers_of tr'). is_handler l) =
            (\<exists>hd tok pl. authorization req = Some hd \<and> hd \<noteq> [] \<and>
               at_index (split_on CHR '' '' hd) 1 = Some tok \<and> tok \<noteq> [] \<and>
               jwtVerify e tok (text_encode (JWT_SECRET e)) now = Inr pl))"
proof -
  have through2: "(\<exists>q q'. Next q \<in> set (verifyToken_calls e now req) \<and>
                    Next q' \<in> set (checkRole_calls rs q)) =
        (\<exists>hd tok pl. authorization req = Some hd \<and> hd \<noteq> [] \<and>
               at_index (split_on CHR '' '' hd) 1 = Some tok \<and> tok \<noteq> [] \<and>
               jwtVerify e tok (text_encode (JWT_SECRET e)) now = Inr pl \<and>
               includes_js (case rs of None \<Rightarrow> [] | Some x \<Rightarrow> x) (get_prop pl ''role''))"
    unfolding verifyToken_calls_next checkRole_calls_next by fastforce
  have through1: "(\<exists>q. Next q \<in> set (verifyToken_calls e now req)) =
        (\<exists>hd tok pl. authorization req = Some hd \<and> hd \<noteq> [] \<and>
               at_index (split_on CHR '' '' hd) 1 = Some tok \<and> tok \<noteq> [] \<and>
               jwtVerify e tok (text_encode (JWT_SECRET e)) now = Inr pl)"
    unfolding verifyToken_calls_next by blast
  consider (deny) r1 where "verifyToken_calls e now req = [Send r1]"
    | (fail) err r1 where
        "verifyToken_calls e now req = [Log ''Token verification failed:'' err, Send r1]"
    | (pass) q where "verifyToken_calls e now req = [Next q]"
    using verifyToken_calls_shape by blast
  then have "(Send r \<in> set (verifyToken_calls e now req) \<longrightarrow>
            sent_of tr = [r] \<and> layers_of tr = [VerifyToken] \<and>
            sent_of tr' = [r] \<and> layers_of tr' = [VerifyToken])
       \<and> (Next req' \<in> set (verifyToken_calls e now req) \<and>
          Send r \<in> set (checkRole_calls rs req') \<longrightarrow>
            sent_of tr = [r] \<and> layers_of tr = [VerifyToken, CheckRole rs])
       \<and> (Next req' \<in> set (verifyToken_calls e now req) \<and>
          Next req'' \<in> set (checkRole_calls rs req') \<longrightarrow>
            sent_of tr = [h req''] \<and> layers_of tr = [VerifyToken, CheckRole rs, Handler h])
       \<and> (Next req' \<in> set (verifyToken_calls e now req) \<longrightarrow>
            sent_of tr' = [h req'] \<and> layers_of tr' = [VerifyToken, Handler h])
       \<and> ((\<exists>l \<in> set (layers_of tr). is_handler l) =
            (\<exists>q q'. Next q \<in> set (verifyToken_calls e now req) \<and>
                    Next q' \<in> set (checkRole_calls rs q)))
       \<and> ((\<exists>l \<in> set (layers_of tr'). is_handler l) =
            (\<exists>q. Next q \<in> set (verifyToken_calls e now req)))"
  proof cases
    case deny
    with assms show ?thesis by (simp add: sent_of_def layers_of_def)
  next
    case fail
    with assms show ?thesis by (simp add: sent_of_def layers_of_def)
  next
    case pass
    consider (no) r2 where "checkRole_calls rs q = [Send r2]"
      | (yes) "checkRole_calls rs q = [Next q]"
      using checkRole_calls_shape by blast
    then show ?thesis
    proof cases
      case no
      with pass assms show ?thesis by (auto simp: sent_of_def layers_of_def)
    next
      case yes
      with pass assms show ?thesis by (auto simp: sent_of_def layers_of_def)
    qed
  qed
  then show ?thesis
    unfolding through2 through1 .
qed

theorem guard_chain_short_circuits_witness:
  "sent_of (dispatch example_env 1061 route_admin bearer_admin) =
     [\<lparr>status = 403, body = [(''message'', JStr ''Invalid or expired token'')]\<rparr>]
   \<and> layers_of (dispatch example_env 1061 route_admin bearer_admin) = [VerifyToken]
   \<and> sent_of (dispatch example_env 1010 route_advisor bearer_admin) =
       [\<lparr>status = 403,
         body = [(''message'', JStr ''Access denied: insufficient permissions'')]\<rparr>]
   \<and> layers_of (dispatch example_env 1010 route_advisor bearer_admin) =
       [VerifyToken, CheckRole (Some [''advisor''])]
   \<and> sent_of (dispatch example_env 1010 route_admin bearer_admin) =
       [\<lparr>status = 200, body = [(''message'', JStr ''Admin content here'')]\<rparr>]
   \<and> layers_of (dispatch example_env 1010 route_admin bearer_admin) = route_admin"
proof -
  let ?admin = "bearer_admin\<lparr>user := Some \<lparr>claim_id = JNum 3, claim_username = JStr ''admin1'',
                                            claim_role = JStr ''admin''\<rparr>\<rparr>"
  let ?expired = "\<lparr>status = 403, body = [(''message'', JStr ''Invalid or expired token'')]\<rparr>"
  let ?denied = "\<lparr>status = 403,
                  body = [(''message'', JStr ''Access denied: insufficient permissions'')]\<rparr>"
  have late: "verifyToken_calls example_env 1061 bearer_admin =
      [Log ''Token verification failed:'' Expired, Send ?expired]"
    by (simp add: verifyToken_calls_def bearer_admin_def at_index_def example_verify
        status_json_def)
  have ok: "verifyToken_calls example_env 1010 bearer_admin = [Next ?admin]"
    by (simp add: verifyToken_calls_def bearer_admin_def at_index_def example_verify
        admin_jws_def get_prop_def)
  have no: "checkRole_calls (Some [''advisor'']) ?admin = [Send ?denied]"
    by (simp add: checkRole_calls_def includes_js_def status_json_def)
  have yes: "checkRole_calls (Some [''admin'']) ?admin = [Next ?admin]"
    by (simp add: checkRole_calls_def includes_js_def)
  have 1: "sent_of (dispatch example_env 1061 route_admin bearer_admin) = [?expired]
     \<and> layers_of (dispatch example_env 1061 route_admin bearer_admin) = [VerifyToken]"
    using guard_chain_short_circuits
      [OF refl refl, where e = example_env and now = 1061 and req = bearer_admin
         and rs = "Some [''admin'']" and h = admin_handler and r = ?expired]
      late
    by (simp add: route_admin_def)
  have 2: "sent_of (dispatch example_env 1010 route_advisor bearer_admin) = [?denied]
     \<and> layers_of (dispatch example_env 1010 route_advisor bearer_admin) =
       [VerifyToken, CheckRole (Some [''advisor''])]"
    using guard_chain_short_circuits
      [OF refl refl, where e = example_env and now = 1010 and req = bearer_admin
         and rs = "Some [''advisor'']" and h = advisor_handler and req' = ?admin
         and r = ?denied]
      ok no
    by (simp add: route_advisor_def)
  have 3: "sent_of (dispatch example_env 1010 route_admin bearer_admin) =
       [\<lparr>status = 200, body = [(''message'', JStr ''Admin content here'')]\<rparr>]
     \<and> layers_of (dispatch example_env 1010 route_admin bearer_admin) = route_admin"
    using guard_chain_short_circuits
      [OF refl refl, where e = example_env and now = 1010 and req = bearer_admin
         and rs = "Some [''admin'']" and h = admin_handler and req' = ?admin and req'' = ?admin]
      ok yes
    by (simp add: route_admin_def admin_handler_def json_def status_json_def)
  show ?thesis using 1 2 3 by simp
qed

end
